theory Spec2Isabelle
  imports Complex_Main "HOL-Library.Sublist" "HOL-Library.Multiset" "HOL-Library.Word"
begin

section \<open>JavaScript values and helpers\<close>

text \<open>
  The report generator (\<^verbatim>\<open>backend/utils/reportGenerator.js\<close>) and the PDF number
  formatter (\<^verbatim>\<open>backend/utils/pdfGenerator.js\<close>) are embedded as HOL functions, together
  with the shape of the data that the Twitter scraper
  (\<^verbatim>\<open>backend/services/twitterScraper.js\<close>) hands to the report generator.

  Conventions of the embedding:
  \<^item> a JavaScript string whose length or substrings the code takes (the text of a tweet,
    the name, headline and about section of a LinkedIn profile) is the list of its UTF-16
    code units, a \<open>ustring\<close>; the other strings, which the code only compares, joins and
    parses, are \<open>string\<close>s, with characters outside ASCII written as their UTF-8 bytes;
  \<^item> counts (followers, likes, \<dots>) are the non-negative integers that the scraper's
    \<^verbatim>\<open>normalizeCount\<close> produces; a count that is missing or \<^verbatim>\<open>NaN\<close> is \<open>None\<close>;
  \<^item> arithmetic on numbers is exact (rationals), which is what IEEE doubles compute
    for the magnitudes a profile can hold;
  \<^item> what the JavaScript engine supplies (the clock, \<^verbatim>\<open>Date\<close> parsing, the digits that
    \<^verbatim>\<open>toFixed\<close> prints) is a parameter \<open>env\<close> of the functions;
  \<^item> white space and letter case are those of ASCII;
  \<^item> a tweet carries a text, as the scraper builds it (\<^verbatim>\<open>text: t.text || ''\<close>), and its
    hashtags and mentions are not names that every object inherits (such as
    \<^verbatim>\<open>constructor\<close>), so that an object used as a counter starts every key at 0.
\<close>

type_synonym ustring = "16 word list"

text \<open>The code units of a text written in ASCII.\<close>

definition u16 :: "string \<Rightarrow> ustring" where
  "u16 s = map of_char s"

datatype jsval = JNum int | JStr string | JStrs "string list"

type_synonym jsobj = "(string \<times> jsval) list"

definition has_key :: "jsobj \<Rightarrow> string \<Rightarrow> bool" where
  "has_key obj k = (k \<in> set (map fst obj))"

record js_env =
  now :: int
  parseDate :: "string \<Rightarrow> int option"
  toFixed :: "rat \<Rightarrow> nat \<Rightarrow> string"

text \<open>\<open>now\<close> is \<^verbatim>\<open>new Date()\<close> in milliseconds; \<open>parseDate s\<close> is the time value of
  \<^verbatim>\<open>new Date(s)\<close>, \<open>None\<close> for an Invalid Date; \<open>toFixed x d\<close> is \<^verbatim>\<open>x.toFixed(d)\<close> for a
  finite \<open>x\<close>.\<close>

subsection \<open>Decimal strings and \<^verbatim>\<open>parseInt\<close>\<close>

fun dec :: "nat \<Rightarrow> string" where
  "dec n = (if n < 10 then [''0123456789'' ! n]
            else dec (n div 10) @ [''0123456789'' ! (n mod 10)])"

declare dec.simps [simp del]

definition is_ws :: "char \<Rightarrow> bool" where
  "is_ws c = (c \<in> set [CHR 0x20, CHR 0x09, CHR 0x0A, CHR 0x0B, CHR 0x0C, CHR 0x0D])"

definition digit_of :: "char \<Rightarrow> nat option" where
  "digit_of c =
     (let n = (of_char c :: nat) in
      if 48 \<le> n \<and> n \<le> 57 then Some (n - 48)
      else if 97 \<le> n \<and> n \<le> 122 then Some (n - 87)
      else if 65 \<le> n \<and> n \<le> 90 then Some (n - 55)
      else None)"

definition is_digit :: "nat \<Rightarrow> char \<Rightarrow> bool" where
  "is_digit radix c = (case digit_of c of None \<Rightarrow> False | Some d \<Rightarrow> d < radix)"

text \<open>The characters that \<open>dec\<close> prints.\<close>

definition plain_digit :: "char \<Rightarrow> bool" where
  "plain_digit c = (c \<in> set ''0123456789'')"

definition digits_val :: "nat \<Rightarrow> string \<Rightarrow> nat" where
  "digits_val radix ds = foldl (\<lambda>a c. radix * a + the (digit_of c)) 0 ds"

text \<open>\<^verbatim>\<open>parseInt(s)\<close> with no radix: leading white space is skipped, a sign is read, a
  \<^verbatim>\<open>0x\<close> prefix selects radix 16, and the longest prefix of digits is the value.
  \<open>None\<close> is \<^verbatim>\<open>NaN\<close>.\<close>

definition parseInt :: "string \<Rightarrow> int option" where
  "parseInt s =
     (let s1 = dropWhile is_ws s;
          neg = (case s1 of c # _ \<Rightarrow> c = CHR ''-'' | [] \<Rightarrow> False);
          s2 = (case s1 of c # r \<Rightarrow> if c = CHR ''-'' \<or> c = CHR ''+'' then r else s1 | [] \<Rightarrow> s1);
          hex = (take 2 s2 = ''0x'' \<or> take 2 s2 = ''0X'');
          radix = (if hex then 16 else 10);
          s3 = (if hex then drop 2 s2 else s2);
          ds = takeWhile (is_digit radix) s3
      in if ds = [] then None
         else Some ((if neg then - 1 else 1) * int (digits_val radix ds)))"

text \<open>\<^verbatim>\<open>parseInt(x) || d\<close> on a count field: a missing or \<^verbatim>\<open>NaN\<close> count and the count 0
  are falsy and give the default.\<close>

definition count_or :: "nat option \<Rightarrow> nat \<Rightarrow> nat" where
  "count_or x d = (case x of None \<Rightarrow> d | Some n \<Rightarrow> if n = 0 then d else n)"

text \<open>\<^verbatim>\<open>Math.round\<close>: the nearest integer, halves towards \<open>+\<infinity>\<close>.\<close>

definition js_round :: "rat \<Rightarrow> int" where
  "js_round x = \<lfloor>x + 1 / 2\<rfloor>"

section \<open>Data model\<close>

text \<open>A tweet, with the fields that the report generator reads and the \<^verbatim>\<open>urls\<close> that the
  scraper records. A boolean field that is absent reads as \<^verbatim>\<open>undefined\<close>, which is falsy
  like \<^verbatim>\<open>false\<close>: both are \<open>False\<close>. An absent \<^verbatim>\<open>hashtags\<close> or \<^verbatim>\<open>mentions\<close> is \<open>None\<close>.\<close>

record tweet =
  tweet_text :: ustring
  time :: string
  likes :: nat
  retweets :: nat
  replies :: nat
  views :: nat
  hasImage :: bool
  hasVideo :: bool
  hasLink :: bool
  isReply :: bool
  isRetweet :: bool
  hashtags :: "string list option"
  mentions :: "string list option"
  urls :: "string list"

record profile =
  followers :: "nat option"
  following :: "nat option"
  joinDate :: string
  verified :: bool
  tweets :: "tweet list"

text \<open>\<open>joinDate\<close> is \<open>''''\<close> when the field is empty or absent (both are falsy).\<close>

subsection \<open>What the scraper builds\<close>

text \<open>The object that the extraction loop of the scraper pushes for a tweet, from the
  text, the time, the normalised counts, the media flags and the links of the page:
  \<^verbatim>\<open>tweets.push({ id, text, time, likes, retweets, replies, views, hasImage, hasVideo,
  coords, placeName, urls, permalink })\<close>. It has no \<^verbatim>\<open>hasLink\<close>, \<^verbatim>\<open>isReply\<close>, \<^verbatim>\<open>isRetweet\<close>,
  \<^verbatim>\<open>hashtags\<close> or \<^verbatim>\<open>mentions\<close>, and nothing adds them later: the links of a tweet are in
  \<^verbatim>\<open>urls\<close>.\<close>

definition scraped_tweet ::
  "ustring \<Rightarrow> string \<Rightarrow> nat \<Rightarrow> nat \<Rightarrow> nat \<Rightarrow> nat \<Rightarrow> bool \<Rightarrow> bool \<Rightarrow> string list \<Rightarrow> tweet" where
  "scraped_tweet txt tm l rt rp vw img vid us =
     \<lparr> tweet_text = txt, time = tm, likes = l, retweets = rt, replies = rp, views = vw,
       hasImage = img, hasVideo = vid, hasLink = False, isReply = False, isRetweet = False,
       hashtags = None, mentions = None, urls = us \<rparr>"

text \<open>The profile that \<^verbatim>\<open>scrapeProfile\<close> returns, from the follower and following counts,
  the verified flag and the tweets: \<^verbatim>\<open>bio\<close>, \<^verbatim>\<open>location\<close>, \<^verbatim>\<open>website\<close> and \<^verbatim>\<open>joinDate\<close> are set
  to \<^verbatim>\<open>''\<close> and never assigned again.\<close>

definition scraped_profile :: "nat option \<Rightarrow> nat option \<Rightarrow> bool \<Rightarrow> tweet list \<Rightarrow> profile" where
  "scraped_profile fo fg v ts =
     \<lparr> followers = fo, following = fg, joinDate = '''', verified = v, tweets = ts \<rparr>"

section \<open>Suspicious-activity detection\<close>

definition calculateAccountAge :: "js_env \<Rightarrow> string \<Rightarrow> string" where
  "calculateAccountAge env jd =
     (if jd = '''' \<or> jd = ''Not specified'' then ''Unknown''
      else case parseDate env jd of
        None \<Rightarrow> ''NaN years''
      | Some joined \<Rightarrow>
          (let diffTime = \<bar>now env - joined\<bar>;
               diffDays = nat \<lceil>of_int diffTime / (1000 * 60 * 60 * 24 :: rat)\<rceil>
           in if diffDays < 30 then dec diffDays @ '' days''
              else if diffDays < 365 then dec (diffDays div 30) @ '' months''
              else dec (diffDays div 365) @ '' years''))"

text \<open>An Invalid Date makes \<^verbatim>\<open>diffDays\<close> \<^verbatim>\<open>NaN\<close>; both comparisons are then false and
  the last template prints \<^verbatim>\<open>NaN years\<close>. Nothing in the \<^verbatim>\<open>try\<close> block throws.\<close>

definition ratio_of :: "nat \<Rightarrow> nat \<Rightarrow> rat" where
  "ratio_of fo fg = (if fg > 0 then of_nat fo / of_nat fg else of_nat fo)"

fun findIndex :: "('a \<Rightarrow> bool) \<Rightarrow> 'a list \<Rightarrow> nat option" where
  "findIndex P [] = None"
| "findIndex P (x # xs) =
     (if P x then Some 0 else map_option Suc (findIndex P xs))"

definition warning_sign :: string where
  "warning_sign = [CHR 0xE2, CHR 0x9A, CHR 0xA0, CHR 0xEF, CHR 0xB8, CHR 0x8F]"

definition check_mark :: string where
  "check_mark = [CHR 0xE2, CHR 0x9C, CHR 0x85]"

definition no_suspicious :: string where
  "no_suspicious = check_mark @ '' No suspicious activity detected''"

record suspicious =
  hasSuspicious :: bool
  riskLevel :: string
  flags :: "string list"
  details :: "string list"

text \<open>Every rule pushes one flag and one detail together, so the two arrays are kept
  as one list of pairs, in the order of the pushes.\<close>

definition ratio_rules :: "nat \<Rightarrow> nat \<Rightarrow> (string \<times> string) list" where
  "ratio_rules fo fg =
     (let ratio = ratio_of fo fg in
      (if fg > 5000 \<and> ratio < 1 / 10
       then [(''Unusual following pattern'',
              warning_sign @ '' Following significantly more accounts than followers - potential bot behavior or spam account'')]
       else []) @
      (if fo > 10000 \<and> ratio > 1000
       then [(''Suspicious follower ratio'',
              warning_sign @ '' Extremely high follower-to-following ratio - possible bought followers or inactive account'')]
       else []))"

text \<open>The tweets whose text occurs at an earlier index:
  \<^verbatim>\<open>tweets.filter((t, i, arr) => arr.findIndex(x => x.text === t.text) !== i).length\<close>.\<close>

definition duplicateContent :: "tweet list \<Rightarrow> nat" where
  "duplicateContent ts =
     length (filter (\<lambda>i. findIndex (\<lambda>x. tweet_text x = tweet_text (ts ! i)) ts \<noteq> Some i)
               [0 ..< length ts])"

definition allHashtags_count :: "tweet list \<Rightarrow> nat" where
  "allHashtags_count ts =
     foldl (\<lambda>sum t. sum + (case hashtags t of None \<Rightarrow> 0 | Some hs \<Rightarrow> length hs)) 0 ts"

text \<open>The rules on the tweets, evaluated for five tweets or more.\<close>

definition spam_rules :: "tweet list \<Rightarrow> (string \<times> string) list" where
  "spam_rules ts =
     (if length ts \<ge> 5 then
        (if of_nat (duplicateContent ts) > of_nat (length ts) * (3 / 10 :: rat)
         then [(''Repetitive content'',
                warning_sign @ '' High percentage of duplicate tweets detected - possible spam or automation'')]
         else []) @
        (if of_nat (length (filter hasLink ts)) > of_nat (length ts) * (8 / 10 :: rat)
         then [(''Link spam pattern'',
                warning_sign @ '' Over 80% of tweets contain links - typical of spam or promotional accounts'')]
         else []) @
        (if allHashtags_count ts > length ts * 5
         then [(''Hashtag spam'',
                warning_sign @ '' Excessive hashtag usage - averaging 5+ hashtags per tweet indicates spam behavior'')]
         else [])
      else [])"

text \<open>The rule on the account age: the text that \<open>calculateAccountAge\<close> prints is read
  back with \<^verbatim>\<open>parseInt\<close> into \<^verbatim>\<open>ageInDays\<close>.\<close>

definition age_rule :: "js_env \<Rightarrow> string \<Rightarrow> nat \<Rightarrow> (string \<times> string) list" where
  "age_rule env jd fo =
     (let accountAge = calculateAccountAge env jd in
      if accountAge \<noteq> ''Unknown'' \<and> fo > 10000 then
        (case parseInt accountAge of
           None \<Rightarrow> []
         | Some ageInDays \<Rightarrow>
             if ageInDays < 30 \<and> fo > 10000
             then [(''Rapid follower growth'',
                    warning_sign @ '' Very new account with large follower base - potential bought followers'')]
             else [])
      else [])"

definition detectSuspiciousActivity :: "js_env \<Rightarrow> profile \<Rightarrow> suspicious" where
  "detectSuspiciousActivity env data =
     (let fo = count_or (followers data) 0;
          fg = count_or (following data) 0;
          fired = ratio_rules fo fg @ spam_rules (tweets data) @ age_rule env (joinDate data) fo;
          fl = map fst fired;
          de = map snd fired
      in \<lparr> hasSuspicious = length fl > 0,
           riskLevel = (if length fl = 0 then ''Low''
                        else if length fl \<le> 2 then ''Medium'' else ''High''),
           flags = fl,
           details = (if length de > 0 then de else [no_suspicious]) \<rparr>)"

section \<open>Engagement analysis\<close>

text \<open>An entry of \<^verbatim>\<open>topTweets\<close>, with the fields \<^verbatim>\<open>text\<close>, \<^verbatim>\<open>likes\<close>, \<^verbatim>\<open>retweets\<close> and
  \<^verbatim>\<open>replies\<close>.\<close>

record top_tweet =
  top_text :: ustring
  top_likes :: nat
  top_retweets :: nat
  top_replies :: nat

record engagement =
  avgEngagement :: int
  totalEngagement :: nat
  avgLikes :: int
  avgRetweets :: int
  avgReplies :: int
  avgViews :: int
  engagementRate :: string
  viralityScore :: jsval
  topTweets :: "top_tweet list"

text \<open>The score of the comparator passed to \<^verbatim>\<open>sort\<close>.\<close>

definition weighted_score :: "tweet \<Rightarrow> nat" where
  "weighted_score t = likes t + retweets t * 2 + replies t * 3"

text \<open>\<^verbatim>\<open>[...tweets].sort((a, b) => scoreB - scoreA)\<close>: \<^verbatim>\<open>Array.prototype.sort\<close> is stable, and
  the comparator orders by descending score; \<open>sort_key\<close> is a stable insertion sort.\<close>

definition sortedTweets :: "tweet list \<Rightarrow> tweet list" where
  "sortedTweets ts = take 3 (sort_key (\<lambda>t. - int (weighted_score t)) ts)"

definition analyzeEngagement :: "js_env \<Rightarrow> tweet list \<Rightarrow> nat option \<Rightarrow> engagement" where
  "analyzeEngagement env ts fo =
     (if length ts = 0 then
        \<lparr> avgEngagement = 0, totalEngagement = 0, avgLikes = 0, avgRetweets = 0,
          avgReplies = 0, avgViews = 0, engagementRate = ''0%'', viralityScore = JNum 0,
          topTweets = [] \<rparr>
      else
        (let totalLikes = foldl (\<lambda>sum t. sum + likes t) 0 ts;
             totalRetweets = foldl (\<lambda>sum t. sum + retweets t) 0 ts;
             totalReplies = foldl (\<lambda>sum t. sum + replies t) 0 ts;
             totalViews = foldl (\<lambda>sum t. sum + views t) 0 ts;
             avgL = js_round (of_nat totalLikes / of_nat (length ts));
             avgRt = js_round (of_nat totalRetweets / of_nat (length ts));
             avgRp = js_round (of_nat totalReplies / of_nat (length ts));
             avgV = js_round (of_nat totalViews / of_nat (length ts));
             totalE = totalLikes + totalRetweets + totalReplies;
             avgE = js_round (of_nat totalE / of_nat (length ts));
             followerCount = count_or fo 1;
             rate = toFixed env (of_int avgE / of_nat followerCount * 100) 3
         in \<lparr> avgEngagement = avgE, totalEngagement = totalE, avgLikes = avgL,
              avgRetweets = avgRt, avgReplies = avgRp, avgViews = avgV,
              engagementRate = rate @ ''%'',
              viralityScore = JStr (if avgRt > 100 then ''High''
                                    else if avgRt > 10 then ''Medium'' else ''Low''),
              topTweets = map (\<lambda>t. \<lparr> top_text = take 100 (tweet_text t) @ u16 ''...'',
                                        top_likes = likes t, top_retweets = retweets t,
                                        top_replies = replies t \<rparr>)
                              (sortedTweets ts) \<rparr>))"

section \<open>Behavior analysis\<close>

text \<open>The result of \<^verbatim>\<open>analyzeTweetsInDepth\<close> is an input of the functions below. They read
  two of its fields: \<^verbatim>\<open>peakHour\<close>, absent (\<open>None\<close>) in the result for an empty tweet list,
  and \<^verbatim>\<open>interactionRate\<close>, which is the number 0 (\<open>None\<close>) for an empty tweet list and an
  object of percentages otherwise.\<close>

record interaction_rate =
  original :: string

record tweet_analysis =
  peakHour :: "string option"
  interactionRate :: "interaction_rate option"

record behavior =
  accountType :: string
  activityPattern :: string
  postingFrequency :: string
  peakTimes :: "string option"
  consistencyScore :: string

text \<open>\<^verbatim>\<open>stdDev / avgGap < c\<close> for \<open>stdDev = sqrt variance\<close>, compared after squaring. The
  gaps of a descending list are not negative; when their mean is 0 the quotient is
  \<^verbatim>\<open>NaN\<close> and every comparison is false.\<close>

definition consistency_lt :: "rat \<Rightarrow> rat \<Rightarrow> rat \<Rightarrow> bool" where
  "consistency_lt variance avgGap c = (avgGap > 0 \<and> variance < c * c * (avgGap * avgGap))"

definition calculateConsistency :: "js_env \<Rightarrow> tweet list \<Rightarrow> string" where
  "calculateConsistency env ts =
     (if length ts < 2 then ''Insufficient data''
      else
        (let timestamps = rev (sort (List.map_filter (\<lambda>t. parseDate env (time t)) ts))
         in if length timestamps < 2 then ''Insufficient data''
            else
              (let gaps = map (\<lambda>i. timestamps ! (i - 1) - timestamps ! i) [1 ..< length timestamps];
                   avgGap = of_int (foldl (+) 0 gaps) / of_nat (length gaps);
                   variance = foldl (\<lambda>sum gap. sum + (of_int gap - avgGap) ^ 2) (0 :: rat) gaps
                                / of_nat (length gaps)
               in if consistency_lt variance avgGap (1 / 2) then ''Very Consistent''
                  else if consistency_lt variance avgGap 1 then ''Consistent''
                  else if consistency_lt variance avgGap 2 then ''Moderate''
                  else ''Irregular'')))"

definition analyzeBehavior :: "js_env \<Rightarrow> profile \<Rightarrow> tweet_analysis \<Rightarrow> behavior" where
  "analyzeBehavior env data ta =
     (let fo = count_or (followers data) 0;
          fg = count_or (following data) 0;
          ratio = ratio_of fo fg;
          tweetCount = length (tweets data)
      in \<lparr> accountType =
             (if verified data then ''Verified Account''
              else if fo > 1000000 then ''Mega Influencer''
              else if fo > 100000 then ''Major Influencer''
              else if fo > 10000 then ''Micro Influencer''
              else if fo > 1000 then ''Active Community Member''
              else if ratio > 10 then ''Growing Influencer''
              else ''Personal Account''),
           activityPattern =
             (if tweetCount \<ge> 8 then ''Very Active''
              else if tweetCount \<ge> 5 then ''Active''
              else if tweetCount \<ge> 2 then ''Moderate''
              else if tweetCount \<ge> 1 then ''Low Activity''
              else ''Inactive''),
           postingFrequency = dec tweetCount @ '' tweets in recent timeline'',
           peakTimes = peakHour ta,
           consistencyScore = calculateConsistency env (tweets data) \<rparr>)"

section \<open>Content analysis\<close>

record content_analysis =
  topics :: "string list"
  sentiment :: jsobj
  types :: jsobj
  hashtagStats :: jsobj
  mentionStats :: jsobj
  linkStats :: jsobj

text \<open>\<^verbatim>\<open>freq[h] = (freq[h] || 0) + 1\<close> on an object used as a counter: a new key is added
  after the keys already there.\<close>

fun bump :: "string \<Rightarrow> (string \<times> nat) list \<Rightarrow> (string \<times> nat) list" where
  "bump h [] = [(h, 1)]"
| "bump h ((k, c) # kcs) = (if k = h then (k, c + 1) # kcs else (k, c) # bump h kcs)"

text \<open>\<^verbatim>\<open>Object.entries\<close> lists the keys that are array indices first, in numeric order,
  and then the other keys in the order of their insertion.\<close>

definition is_index_key :: "string \<Rightarrow> bool" where
  "is_index_key k =
     (k \<noteq> [] \<and> list_all (is_digit 10) k \<and> (if take 1 k = ''0'' then k = ''0'' else True)
      \<and> digits_val 10 k < 4294967295)"

definition object_entries :: "(string \<times> nat) list \<Rightarrow> (string \<times> nat) list" where
  "object_entries kcs =
     sort_key (\<lambda>kc. digits_val 10 (fst kc)) (filter (\<lambda>kc. is_index_key (fst kc)) kcs)
     @ filter (\<lambda>kc. \<not> is_index_key (fst kc)) kcs"

text \<open>\<^verbatim>\<open>Object.entries(freq).sort((a, b) => b[1] - a[1]).slice(0, 5)\<close>, each entry printed
  as \<^verbatim>\<open>`${tag} (${count})`\<close>.\<close>

definition top5 :: "(string \<times> nat) list \<Rightarrow> string list" where
  "top5 freq =
     map (\<lambda>kc. fst kc @ '' ('' @ dec (snd kc) @ '')'')
       (take 5 (sort_key (\<lambda>kc. - int (snd kc)) (object_entries freq)))"

definition toLowerCase :: "ustring \<Rightarrow> ustring" where
  "toLowerCase s = map (\<lambda>c. if 65 \<le> c \<and> c \<le> 90 then c + 32 else c) s"

fun str_includes :: "'a list \<Rightarrow> 'a list \<Rightarrow> bool" where
  "str_includes [] w = (w = [])"
| "str_includes (c # cs) w = (prefix w (c # cs) \<or> str_includes cs w)"

definition positiveWords :: "string list" where
  "positiveWords =
     [''good'', ''great'', ''awesome'', ''love'', ''excellent'', ''amazing'', ''best'', ''happy'']"

definition negativeWords :: "string list" where
  "negativeWords =
     [''bad'', ''hate'', ''worst'', ''terrible'', ''awful'', ''sad'', ''angry'', ''disappointed'']"

text \<open>One step of the \<^verbatim>\<open>forEach\<close> that counts (positive, negative, neutral).\<close>

definition sentiment_step :: "nat \<times> nat \<times> nat \<Rightarrow> tweet \<Rightarrow> nat \<times> nat \<times> nat" where
  "sentiment_step acc t =
     (case acc of (positive, negative, neutral) \<Rightarrow>
        (let txt = toLowerCase (tweet_text t);
             hasPositive = list_ex (\<lambda>w. str_includes txt (u16 w)) positiveWords;
             hasNegative = list_ex (\<lambda>w. str_includes txt (u16 w)) negativeWords
         in if hasPositive \<and> \<not> hasNegative then (positive + 1, negative, neutral)
            else if hasNegative \<and> \<not> hasPositive then (positive, negative + 1, neutral)
            else (positive, negative, neutral + 1)))"

definition percent :: "js_env \<Rightarrow> nat \<Rightarrow> nat \<Rightarrow> string" where
  "percent env k n = toFixed env (of_nat k / of_nat n * 100) 1 @ ''%''"

definition analyzeContent :: "js_env \<Rightarrow> tweet list \<Rightarrow> content_analysis" where
  "analyzeContent env ts =
     (if length ts = 0 then
        \<lparr> topics = [],
          sentiment = [(''positive'', JNum 0), (''neutral'', JNum 0), (''negative'', JNum 0)],
          types = [], hashtagStats = [], mentionStats = [], linkStats = [] \<rparr>
      else
        (let withLinks = length (filter hasLink ts);
             allHashtags = concat (map (\<lambda>t. case hashtags t of None \<Rightarrow> [] | Some hs \<Rightarrow> hs) ts);
             hashtagFreq = foldl (\<lambda>freq h. bump h freq) [] allHashtags;
             allMentions = concat (map (\<lambda>t. case mentions t of None \<Rightarrow> [] | Some ms \<Rightarrow> ms) ts);
             mentionFreq = foldl (\<lambda>freq m. bump m freq) [] allMentions
         in case foldl sentiment_step (0, 0, 0) ts of (positive, negative, neutral) \<Rightarrow>
            \<lparr> topics = [],
              sentiment = [(''positive'', JStr (percent env positive (length ts))),
                           (''neutral'', JStr (percent env neutral (length ts))),
                           (''negative'', JStr (percent env negative (length ts)))],
              types = [(''original'', JNum (int (length (filter (\<lambda>t. \<not> isReply t \<and> \<not> isRetweet t) ts)))),
                       (''replies'', JNum (int (length (filter isReply ts)))),
                       (''retweets'', JNum (int (length (filter isRetweet ts)))),
                       (''withMedia'', JNum (int (length (filter (\<lambda>t. hasImage t \<or> hasVideo t) ts)))),
                       (''withLinks'', JNum (int withLinks))],
              hashtagStats = [(''total'', JNum (int (length allHashtags))),
                              (''unique'', JNum (int (length hashtagFreq))),
                              (''topHashtags'', JStrs (top5 hashtagFreq))],
              mentionStats = [(''total'', JNum (int (length allMentions))),
                              (''unique'', JNum (int (length mentionFreq))),
                              (''topMentions'', JStrs (top5 mentionFreq))],
              linkStats = [(''tweetsWithLinks'', JNum (int withLinks)),
                           (''percentage'', JStr (percent env withLinks (length ts)))] \<rparr>))"

section \<open>Account health\<close>

record health =
  score :: int
  rating :: string
  factors :: "string list"

definition calculateAccountHealth :: "profile \<Rightarrow> tweet_analysis \<Rightarrow> suspicious \<Rightarrow> health" where
  "calculateAccountHealth data ta sa =
     (let fo = count_or (followers data) 0;
          fg = count_or (following data) 0;
          s0 = 100 - int (length (flags sa)) * 15;
          f0 = (if hasSuspicious sa
                then [''-'' @ dec (length (flags sa) * 15) @ '' points: Suspicious activity detected'']
                else []);
          s1 = (if verified data then s0 + 10 else s0);
          f1 = (if verified data then f0 @ [''+10 points: Verified account''] else f0);
          s2 = (if length (tweets data) \<ge> 5 then s1 + 10
                else if length (tweets data) < 2 then s1 - 10 else s1);
          f2 = (if length (tweets data) \<ge> 5 then f1 @ [''+10 points: Active posting'']
                else if length (tweets data) < 2 then f1 @ [''-10 points: Low activity''] else f1);
          avgE = (case interactionRate ta of
                    None \<Rightarrow> Some 0
                  | Some ir \<Rightarrow> if original ir = '''' then Some 0 else parseInt (original ir));
          high = (case avgE of None \<Rightarrow> False | Some a \<Rightarrow> a > 70);
          s3 = (if high then s2 + 15 else s2);
          f3 = (if high then f2 @ [''+15 points: High original content ratio''] else f2);
          ratio = ratio_of fo fg;
          s4 = (if ratio > 2 \<and> fo > 100 then s3 + 10
                else if ratio < 1 / 2 \<and> fg > 1000 then s3 - 10 else s3);
          f4 = (if ratio > 2 \<and> fo > 100 then f3 @ [''+10 points: Healthy follower ratio'']
                else if ratio < 1 / 2 \<and> fg > 1000 then f3 @ [''-10 points: Poor follower ratio'']
                else f3);
          sc = max 0 (min 100 s4)
      in \<lparr> score = sc,
           rating = (if sc \<ge> 80 then ''Excellent'' else if sc \<ge> 60 then ''Good''
                     else if sc \<ge> 40 then ''Fair'' else ''Poor''),
           factors = (if length f4 > 0 then f4 else [''Standard account metrics'']) \<rparr>)"

section \<open>LinkedIn health\<close>

record experience =
  title :: string
  company :: string
  duration :: string

text \<open>A field of the LinkedIn data that is \<^verbatim>\<open>undefined\<close> or \<^verbatim>\<open>null\<close> is \<open>None\<close>.\<close>

record linkedin =
  name :: "ustring option"
  headline :: "ustring option"
  about :: "ustring option"
  experiences :: "experience list option"
  skills :: "string list option"

text \<open>\<^verbatim>\<open>data.s && P(data.s)\<close> for a string field: the empty string is falsy too.\<close>

definition str_and :: "ustring option \<Rightarrow> (ustring \<Rightarrow> bool) \<Rightarrow> bool" where
  "str_and s P = (case s of None \<Rightarrow> False | Some v \<Rightarrow> v \<noteq> [] \<and> P v)"

text \<open>\<^verbatim>\<open>data.xs && P(data.xs)\<close> for an array field: every array is truthy.\<close>

definition arr_and :: "'a list option \<Rightarrow> ('a list \<Rightarrow> bool) \<Rightarrow> bool" where
  "arr_and xs P = (case xs of None \<Rightarrow> False | Some v \<Rightarrow> P v)"

text \<open>The value of \<^verbatim>\<open>score\<close> after its initialisation and after each of the six
  \<^verbatim>\<open>if (\<dots>) score += k\<close> statements.\<close>

definition linkedin_scores :: "linkedin \<Rightarrow> int list" where
  "linkedin_scores data =
     (let s0 = 50;
          s1 = (if str_and (name data) (\<lambda>v. v \<noteq> u16 ''N/A'') then s0 + 10 else s0);
          s2 = (if str_and (headline data) (\<lambda>v. length v > 10) then s1 + 10 else s1);
          s3 = (if str_and (about data) (\<lambda>v. length v > 100) then s2 + 10 else s2);
          s4 = (if arr_and (experiences data) (\<lambda>v. length v > 0) then s3 + 10 else s3);
          s5 = (if arr_and (experiences data) (\<lambda>v. length v \<ge> 3) then s4 + 5 else s4);
          s6 = (if arr_and (skills data) (\<lambda>v. length v \<ge> 5) then s5 + 5 else s5)
      in [s0, s1, s2, s3, s4, s5, s6])"

definition calculateLinkedInHealth :: "linkedin \<Rightarrow> int" where
  "calculateLinkedInHealth data = min (last (linkedin_scores data)) 100"

section \<open>The number formatter of the PDF generator\<close>

text \<open>A number: \<^verbatim>\<open>NaN\<close>, a finite value (\<open>Fin 0\<close> is \<open>+0\<close>), the negative zero, or an
  infinity.\<close>

datatype jsnum = NaN | Fin rat | NegZero | PosInf | NegInf










section \<open>A sample environment\<close>

text \<open>The functions of the report generator take the engine's part as the parameter
  \<open>env\<close>, and the theorems below hold for every \<open>env\<close>. To run the functions on concrete
  inputs, this section fixes one environment: the clock stands at 2025-11-02T00:00:00Z,
  \<^verbatim>\<open>Date\<close> reads the timestamps that \<^verbatim>\<open>toISOString\<close> prints (every other string is an
  Invalid Date here, where an engine reads further formats), and \<^verbatim>\<open>toFixed\<close> prints the
  exact value.\<close>

definition days_from_civil :: "int \<Rightarrow> int \<Rightarrow> int \<Rightarrow> int" where
  "days_from_civil y m d =
     (let y1 = (if m \<le> 2 then y - 1 else y);
          era = y1 div 400;
          yoe = y1 - era * 400;
          doy = (153 * (if m > 2 then m - 3 else m + 9) + 2) div 5 + d - 1;
          doe = yoe * 365 + yoe div 4 - yoe div 100 + doy
      in era * 146097 + doe - 719468)"

definition days_in_month :: "nat \<Rightarrow> nat \<Rightarrow> nat" where
  "days_in_month y m =
     (if m = 2 then (if y mod 4 = 0 \<and> (if y mod 100 = 0 then y mod 400 = 0 else True) then 29 else 28)
      else if m = 4 \<or> m = 6 \<or> m = 9 \<or> m = 11 then 30 else 31)"

definition field :: "string \<Rightarrow> nat \<Rightarrow> nat \<Rightarrow> string" where
  "field s i n = take n (drop i s)"

definition sample_parseDate :: "string \<Rightarrow> int option" where
  "sample_parseDate s =
     (if length s = 24
         \<and> field s 4 1 = ''-'' \<and> field s 7 1 = ''-'' \<and> field s 10 1 = ''T''
         \<and> field s 13 1 = '':'' \<and> field s 16 1 = '':'' \<and> field s 19 1 = ''.''
         \<and> field s 23 1 = ''Z''
         \<and> list_all (is_digit 10)
              (field s 0 4 @ field s 5 2 @ field s 8 2 @ field s 11 2 @ field s 14 2
               @ field s 17 2 @ field s 20 3)
      then
        (let y = digits_val 10 (field s 0 4); mo = digits_val 10 (field s 5 2);
             d = digits_val 10 (field s 8 2); h = digits_val 10 (field s 11 2);
             mi = digits_val 10 (field s 14 2); se = digits_val 10 (field s 17 2);
             ms = digits_val 10 (field s 20 3)
         in if 1 \<le> mo \<and> mo \<le> 12 \<and> 1 \<le> d \<and> d \<le> days_in_month y mo
               \<and> h < 24 \<and> mi < 60 \<and> se < 60
            then Some (days_from_civil (int y) (int mo) (int d) * 86400000
                       + int (((h * 60 + mi) * 60 + se) * 1000 + ms))
            else None)
      else None)"

text \<open>\<^verbatim>\<open>x.toFixed(d)\<close> below \<open>10\<^sup>2\<^sup>1\<close>, on the exact value: the nearest multiple of
  \<open>10\<^sup>-\<^sup>d\<close>, the larger one at a tie, printed with \<open>d\<close> fraction digits. An engine prints
  the double nearest to the value, so the last digit can differ where the exact value
  lies halfway between two printed ones; no statement below rests on such a value.\<close>

definition sample_toFixed :: "rat \<Rightarrow> nat \<Rightarrow> string" where
  "sample_toFixed x d =
     (let n = nat \<lfloor>\<bar>x\<bar> * 10 ^ d + 1 / 2\<rfloor>;
          fs = dec (n mod 10 ^ d)
      in (if x < 0 then ''-'' else '''') @ dec (n div 10 ^ d)
         @ (if d = 0 then '''' else ''.'' @ replicate (d - length fs) (CHR ''0'') @ fs))"

definition sample_env :: js_env where
  "sample_env = \<lparr> now = 1762041600000, parseDate = sample_parseDate,
                  toFixed = sample_toFixed \<rparr>"

section \<open>The specification's words\<close>

text \<open>The risk level as the specification words it: High from three flags on, Medium
  for one or two, Low for none.\<close>

definition risk_of_count :: "nat \<Rightarrow> string" where
  "risk_of_count n = (if n \<ge> 3 then ''High'' else if n \<ge> 1 then ''Medium'' else ''Low'')"

text \<open>The account type as the specification words it: fixed follower tiers, overridden
  for a verified account.\<close>

definition tier_accountType :: "bool \<Rightarrow> nat \<Rightarrow> string" where
  "tier_accountType v fo =
     (if v then ''Verified Account''
      else if fo > 1000000 then ''Mega Influencer''
      else if fo > 100000 then ''Major Influencer''
      else if fo > 10000 then ''Micro Influencer''
      else if fo > 1000 then ''Active Community Member''
      else ''Personal Account'')"

text \<open>The unweighted mean of one count over a tweet list.\<close>

definition mean_of :: "(tweet \<Rightarrow> nat) \<Rightarrow> tweet list \<Rightarrow> rat" where
  "mean_of f ts = of_nat (sum_list (map f ts)) / of_nat (length ts)"





section \<open>Sample inputs\<close>

definition link_tweet :: tweet where
  "link_tweet =
     \<lparr> tweet_text = u16 ''Great deal at https://example.com #sale'',
       time = ''2025-10-23T00:00:00.000Z'', likes = 1, retweets = 0, replies = 0, views = 5,
       hasImage = False, hasVideo = False, hasLink = True, isReply = False,
       isRetweet = False, hashtags = Some [''#sale''], mentions = None,
       urls = [''https://example.com''] \<rparr>"

definition liked_tweet :: tweet where
  "liked_tweet =
     \<lparr> tweet_text = u16 ''hello'', time = ''2025-10-24T00:00:00.000Z'', likes = 2, retweets = 0,
       replies = 0, views = 0, hasImage = False, hasVideo = False, hasLink = False,
       isReply = False, isRetweet = False, hashtags = None, mentions = None, urls = [] \<rparr>"

text \<open>Ten tweets as the scraper builds them, each with a link in its text and in its
  \<^verbatim>\<open>urls\<close>, on a profile with 200 followers that follows 20000 accounts.\<close>

definition link_post :: "nat \<Rightarrow> tweet" where
  "link_post i =
     scraped_tweet (u16 (''Offer '' @ dec i @ '' at https://example.com/'' @ dec i))
       ''2025-10-23T00:00:00.000Z'' 1 0 0 5 False False [''https://example.com/'' @ dec i]"

definition scraped_spam_profile :: profile where
  "scraped_spam_profile = scraped_profile (Some 200) (Some 20000) False (map link_post [0 ..< 10])"

definition quiet_profile :: profile where
  "quiet_profile =
     \<lparr> followers = Some 300, following = Some 200, joinDate = '''', verified = False,
       tweets = [] \<rparr>"

definition growing_profile :: profile where
  "growing_profile =
     \<lparr> followers = Some 500, following = Some 10, joinDate = '''', verified = False,
       tweets = [] \<rparr>"

definition old_account :: profile where
  "old_account =
     \<lparr> followers = Some 20000, following = Some 100,
       joinDate = ''2023-11-03T00:00:00.000Z'', verified = False, tweets = [] \<rparr>"

text \<open>What \<^verbatim>\<open>analyzeTweetsInDepth\<close> returns for an empty tweet list.\<close>

definition no_analysis :: tweet_analysis where
  "no_analysis = \<lparr> peakHour = None, interactionRate = None \<rparr>"

section \<open>Properties of suspicious-activity detection\<close>

lemma risk_shape:
  "riskLevel (detectSuspiciousActivity env data)
     = (if length (flags (detectSuspiciousActivity env data)) = 0 then ''Low''
        else if length (flags (detectSuspiciousActivity env data)) \<le> 2 then ''Medium''
        else ''High'')"
  by (simp add: detectSuspiciousActivity_def Let_def)

lemma details_shape:
  "details (detectSuspiciousActivity env data)
     = (if flags (detectSuspiciousActivity env data) = [] then [no_suspicious]
        else details (detectSuspiciousActivity env data))
   \<and> length (details (detectSuspiciousActivity env data)) > 0
   \<and> hasSuspicious (detectSuspiciousActivity env data)
       = (length (flags (detectSuspiciousActivity env data)) > 0)"
  by (simp add: detectSuspiciousActivity_def Let_def)

text \<open>Claim C5. For every input to suspicious-activity detection, the risk level is a
  function of the number of flags alone: it is High exactly when at least three flags
  fired, Medium exactly when one or two fired, and Low exactly when none fired.\<close>

theorem riskLevel_by_flag_count:
  "riskLevel (detectSuspiciousActivity env data)
     = risk_of_count (length (flags (detectSuspiciousActivity env data)))
   \<and> (riskLevel (detectSuspiciousActivity env data) = ''High'')
       = (3 \<le> length (flags (detectSuspiciousActivity env data)))
   \<and> (riskLevel (detectSuspiciousActivity env data) = ''Medium'')
       = (length (flags (detectSuspiciousActivity env data)) \<in> {1, 2})
   \<and> (riskLevel (detectSuspiciousActivity env data) = ''Low'')
       = (length (flags (detectSuspiciousActivity env data)) = 0)"
proof -
  define n where "n = length (flags (detectSuspiciousActivity env data))"
  have r: "riskLevel (detectSuspiciousActivity env data)
             = (if n = 0 then ''Low'' else if n \<le> 2 then ''Medium'' else ''High'')"
    unfolding n_def by (rule risk_shape)
  have "n = 0 \<or> n = 1 \<or> n = 2 \<or> 3 \<le> n" by arith
  then show ?thesis
    unfolding n_def [symmetric] r risk_of_count_def by auto
qed

text \<open>Claim C8. For every input, suspicious-activity detection returns a details list
  that is not empty; when no rule fires, the list is exactly the one placeholder entry
  (a check mark followed by \<^verbatim>\<open> No suspicious activity detected\<close>); and
  \<^verbatim>\<open>hasSuspicious\<close> is true exactly when at least one flag fired.\<close>

theorem details_never_empty:
  "details (detectSuspiciousActivity env data) \<noteq> []
   \<and> (flags (detectSuspiciousActivity env data) = []
        \<longrightarrow> details (detectSuspiciousActivity env data)
            = [check_mark @ '' No suspicious activity detected''])
   \<and> hasSuspicious (detectSuspiciousActivity env data)
       = (1 \<le> length (flags (detectSuspiciousActivity env data)))"
proof -
  note d = details_shape [of env data]
  from d have "details (detectSuspiciousActivity env data) \<noteq> []" by auto
  moreover from d have "flags (detectSuspiciousActivity env data) = []
        \<longrightarrow> details (detectSuspiciousActivity env data)
            = [check_mark @ '' No suspicious activity detected'']"
    by (auto simp: no_suspicious_def)
  moreover from d have "hasSuspicious (detectSuspiciousActivity env data)
       = (1 \<le> length (flags (detectSuspiciousActivity env data)))"
    by (simp add: Suc_le_eq)
  ultimately show ?thesis by blast
qed

theorem details_never_empty_witness:
  "flags (detectSuspiciousActivity sample_env quiet_profile) = []
   \<and> details (detectSuspiciousActivity sample_env quiet_profile)
       = [check_mark @ '' No suspicious activity detected'']
   \<and> hasSuspicious (detectSuspiciousActivity sample_env quiet_profile) = False"
proof -
  have f: "flags (detectSuspiciousActivity sample_env quiet_profile) = []"
    by code_simp
  from details_never_empty [of sample_env quiet_profile] f show ?thesis by simp
qed

subsection \<open>Which rule pushes which flag\<close>

lemma flags_append:
  "flags (detectSuspiciousActivity env data)
     = map fst (ratio_rules (count_or (followers data) 0) (count_or (following data) 0))
       @ map fst (spam_rules (tweets data))
       @ map fst (age_rule env (joinDate data) (count_or (followers data) 0))"
  by (simp add: detectSuspiciousActivity_def Let_def)

lemma ratio_rules_fst:
  "map fst (ratio_rules fo fg)
     = (if fg > 5000 \<and> ratio_of fo fg < 1 / 10 then [''Unusual following pattern''] else [])
       @ (if fo > 10000 \<and> ratio_of fo fg > 1000 then [''Suspicious follower ratio''] else [])"
  by (simp add: ratio_rules_def Let_def)

lemma spam_rules_fst:
  "map fst (spam_rules ts)
     = (if length ts \<ge> 5 then
          (if of_nat (duplicateContent ts) > of_nat (length ts) * (3 / 10 :: rat)
           then [''Repetitive content''] else [])
          @ (if of_nat (length (filter hasLink ts)) > of_nat (length ts) * (8 / 10 :: rat)
             then [''Link spam pattern''] else [])
          @ (if allHashtags_count ts > length ts * 5 then [''Hashtag spam''] else [])
        else [])"
  by (simp add: spam_rules_def)

lemma age_rule_fst:
  "map fst (age_rule env jd fo)
     = (if age_rule env jd fo = [] then [] else [''Rapid follower growth''])"
  by (simp add: age_rule_def Let_def split: option.split)

lemma rapid_growth_flag:
  "(''Rapid follower growth'' \<in> set (flags (detectSuspiciousActivity env data)))
     = (age_rule env (joinDate data) (count_or (followers data) 0) \<noteq> [])"
proof -
  have r: "''Rapid follower growth''
             \<notin> set (map fst (ratio_rules (count_or (followers data) 0) (count_or (following data) 0)))"
    unfolding ratio_rules_fst by simp
  have s: "''Rapid follower growth'' \<notin> set (map fst (spam_rules (tweets data)))"
    unfolding spam_rules_fst by simp
  have a: "(''Rapid follower growth''
              \<in> set (map fst (age_rule env (joinDate data) (count_or (followers data) 0))))
            = (age_rule env (joinDate data) (count_or (followers data) 0) \<noteq> [])"
    unfolding age_rule_fst by simp
  show ?thesis
    unfolding flags_append set_append Un_iff using r s a by blast
qed

lemma link_spam_flag:
  "(''Link spam pattern'' \<in> set (flags (detectSuspiciousActivity env data)))
     = (length (tweets data) \<ge> 5
        \<and> of_nat (length (filter hasLink (tweets data))) > of_nat (length (tweets data)) * (8 / 10 :: rat))"
proof -
  have r: "''Link spam pattern''
             \<notin> set (map fst (ratio_rules (count_or (followers data) 0) (count_or (following data) 0)))"
    unfolding ratio_rules_fst by simp
  have a: "''Link spam pattern''
             \<notin> set (map fst (age_rule env (joinDate data) (count_or (followers data) 0)))"
    unfolding age_rule_fst by simp
  have s: "(''Link spam pattern'' \<in> set (map fst (spam_rules (tweets data))))
     = (length (tweets data) \<ge> 5
        \<and> of_nat (length (filter hasLink (tweets data))) > of_nat (length (tweets data)) * (8 / 10 :: rat))"
    unfolding spam_rules_fst by simp
  show ?thesis
    unfolding flags_append set_append Un_iff using r a s by blast
qed

subsection \<open>Posts that contain links\<close>

text \<open>The link rule counts the tweets whose \<^verbatim>\<open>hasLink\<close> is set. On ten tweets that all
  carry the flag, and with 200 followers and 20000 accounts followed, both flags of the
  specification's example are pushed.\<close>

lemma link_rule_fires_with_hasLink:
  assumes "followers data = Some 200" and "following data = Some 20000"
    and "length (tweets data) = 10" and "\<forall>t \<in> set (tweets data). hasLink t"
  shows "''Unusual following pattern'' \<in> set (flags (detectSuspiciousActivity env data))
     \<and> ''Link spam pattern'' \<in> set (flags (detectSuspiciousActivity env data))
     \<and> (riskLevel (detectSuspiciousActivity env data) = ''Medium''
          \<or> riskLevel (detectSuspiciousActivity env data) = ''High'')"
proof -
  have all: "filter hasLink (tweets data) = tweets data"
    using assms(4) by simp
  have r: "''Unusual following pattern'' \<in> fst ` set (ratio_rules 200 20000)"
    by (simp add: ratio_rules_def ratio_of_def Let_def)
  have s: "''Link spam pattern'' \<in> fst ` set (spam_rules (tweets data))"
    using assms(3) by (simp add: spam_rules_def all image_Un)
  show ?thesis
    using r s assms(1,2)
    by (auto simp: detectSuspiciousActivity_def Let_def count_or_def image_Un)
qed

text \<open>No tweet that the scraper builds carries the flag, whatever its links, so the link
  rule never fires on the tweets of a scraped profile.\<close>

lemma scraped_no_hasLink: "\<not> hasLink (scraped_tweet txt tm l rt rp vw img vid us)"
  by (simp add: scraped_tweet_def)

lemma no_hasLink_no_flag:
  "list_all (\<lambda>t. \<not> hasLink t) (tweets data)
     \<Longrightarrow> ''Link spam pattern'' \<notin> set (flags (detectSuspiciousActivity env data))"
proof -
  assume "list_all (\<lambda>t. \<not> hasLink t) (tweets data)"
  then have "filter hasLink (tweets data) = []"
    by (simp add: list_all_iff filter_empty_conv)
  then show ?thesis by (simp add: link_spam_flag)
qed

lemma link_posts_no_spam_rule: "spam_rules (map link_post [0 ..< 10]) = []"
  by code_simp

text \<open>Claim C6. For every profile with 200 followers, 20000 accounts followed and a list
  of 10 posts that all contain links, the flags include \<^verbatim>\<open>Unusual following pattern\<close> and
  \<^verbatim>\<open>Link spam pattern\<close>, and the risk level is Medium or High.

  The program does not meet it. The scraper records the links of a post in \<^verbatim>\<open>urls\<close> and
  sets no \<^verbatim>\<open>hasLink\<close>, which is the field the link rule reads: for ten scraped posts that
  each contain a link, on a profile with 200 followers following 20000, the only flag
  is \<^verbatim>\<open>Unusual following pattern\<close>, and \<^verbatim>\<open>Link spam pattern\<close> is missing.\<close>

theorem scraped_link_posts_not_flagged:
  "followers scraped_spam_profile = Some 200
   \<and> following scraped_spam_profile = Some 20000
   \<and> length (tweets scraped_spam_profile) = 10
   \<and> list_all (\<lambda>t. urls t \<noteq> []) (tweets scraped_spam_profile)
   \<and> flags (detectSuspiciousActivity sample_env scraped_spam_profile)
       = [''Unusual following pattern'']
   \<and> ''Link spam pattern'' \<notin> set (flags (detectSuspiciousActivity sample_env scraped_spam_profile))
   \<and> riskLevel (detectSuspiciousActivity sample_env scraped_spam_profile) = ''Medium''"
proof -
  have shape: "followers scraped_spam_profile = Some 200"
    "following scraped_spam_profile = Some 20000"
    "joinDate scraped_spam_profile = ''''"
    "tweets scraped_spam_profile = map link_post [0 ..< 10]"
    by (simp_all add: scraped_spam_profile_def scraped_profile_def)
  have links: "list_all (\<lambda>t. urls t \<noteq> []) (tweets scraped_spam_profile)"
    unfolding shape by (simp add: list_all_iff link_post_def scraped_tweet_def)
  have ratio: "ratio_rules 200 20000
     = [(''Unusual following pattern'',
         warning_sign @ '' Following significantly more accounts than followers - potential bot behavior or spam account'')]"
    by (simp add: ratio_rules_def ratio_of_def Let_def)
  have age: "age_rule sample_env '''' 200 = []"
    by (simp add: age_rule_def calculateAccountAge_def)
  have fl: "flags (detectSuspiciousActivity sample_env scraped_spam_profile)
              = [''Unusual following pattern'']"
    by (simp add: detectSuspiciousActivity_def shape count_or_def ratio
        link_posts_no_spam_rule age Let_def)
  have risk: "riskLevel (detectSuspiciousActivity sample_env scraped_spam_profile) = ''Medium''"
    by (simp add: risk_shape fl)
  from shape(1,2) links fl risk show ?thesis by (simp add: shape)
qed

section \<open>Properties of the health scores\<close>

lemma clamp_bounds: "0 \<le> max 0 (min 100 (x::int)) \<and> max 0 (min 100 x) \<le> 100"
  by simp

lemma score_clamped: "\<exists>x. score (calculateAccountHealth data ta sa) = max 0 (min 100 x)"
  unfolding calculateAccountHealth_def Let_def health.select_convs
  by (rule exI) (rule refl)

text \<open>Claim C4. Whatever combination of health-score rules triggers (any number of
  suspicious flags, the verified bonus, active or low posting, a high original-content
  ratio, a healthy or poor follower ratio), the account health score lies in [0, 100].\<close>

theorem health_score_in_range:
  "0 \<le> score (calculateAccountHealth data ta sa)
   \<and> score (calculateAccountHealth data ta sa) \<le> 100"
proof -
  obtain x where "score (calculateAccountHealth data ta sa) = max 0 (min 100 x)"
    using score_clamped by blast
  then show ?thesis by (simp only: clamp_bounds)
qed

text \<open>Claim C9. For every LinkedIn profile, the LinkedIn health score lies in [50, 100]:
  the score starts at 50, no completeness rule lowers it, and the result is capped
  at 100.\<close>

theorem linkedin_health_in_range:
  "50 \<le> calculateLinkedInHealth d \<and> calculateLinkedInHealth d \<le> 100
   \<and> hd (linkedin_scores d) = 50 \<and> sorted (linkedin_scores d)
   \<and> calculateLinkedInHealth d = min (last (linkedin_scores d)) 100"
proof -
  have start: "hd (linkedin_scores d) = 50"
    by (simp add: linkedin_scores_def Let_def)
  have rising: "sorted (linkedin_scores d)"
    by (simp add: linkedin_scores_def Let_def)
  have "length (linkedin_scores d) = 7"
    by (simp add: linkedin_scores_def Let_def)
  then have "linkedin_scores d \<noteq> []" by auto
  with rising have "hd (linkedin_scores d) \<le> last (linkedin_scores d)"
    by (metis hd_Cons_tl last_in_set list.sel(1) order_refl set_ConsD sorted_simps(2))
  with start have "50 \<le> min (last (linkedin_scores d)) 100" by simp
  with start rising show ?thesis
    by (simp add: calculateLinkedInHealth_def)
qed

section \<open>Properties of the behavior analysis\<close>

lemma ratio_gt_10:
  "(ratio_of fo fg > 10) = (if fg > 0 then fo > 10 * fg else fo > 10)"
proof (cases "fg > 0")
  case True
  then have "(of_nat fo / of_nat fg > (10::rat)) = ((of_nat fo :: rat) > 10 * of_nat fg)"
    by (simp add: pos_less_divide_eq)
  also have "\<dots> = ((of_nat fo :: rat) > of_nat (10 * fg))" by simp
  also have "\<dots> = (fo > 10 * fg)" by (simp only: of_nat_less_iff)
  finally show ?thesis using True by (simp add: ratio_of_def)
next
  case False
  have "((of_nat fo :: rat) > 10) = ((of_nat fo :: rat) > of_nat 10)" by simp
  also have "\<dots> = (fo > 10)" by (simp only: of_nat_less_iff)
  finally show ?thesis using False by (simp add: ratio_of_def)
qed

text \<open>Claim C3, as amended. For every profile, the account type is \<^verbatim>\<open>Verified Account\<close>
  whenever the account is verified; otherwise it follows the fixed follower tiers
  (above 1,000,000 mega, above 100,000 major, above 10,000 micro, above 1,000 active
  community member), and an account with at most 1,000 followers is a
  \<^verbatim>\<open>Growing Influencer\<close> when its followers are more than ten times the accounts it
  follows (more than ten followers when it follows nobody), and a personal account
  only otherwise.\<close>

theorem accountType_tiers_and_ratio:
  "accountType (analyzeBehavior env data ta)
     = (if \<not> verified data \<and> count_or (followers data) 0 \<le> 1000
           \<and> (if count_or (following data) 0 > 0
               then count_or (followers data) 0 > 10 * count_or (following data) 0
               else count_or (followers data) 0 > 10)
        then ''Growing Influencer''
        else tier_accountType (verified data) (count_or (followers data) 0))"
proof (cases "verified data")
  case True
  then show ?thesis
    by (simp add: analyzeBehavior_def tier_accountType_def Let_def)
next
  case unverified: False
  show ?thesis
  proof (cases "count_or (followers data) 0 > 1000")
    case True
    with unverified show ?thesis
      by (simp add: analyzeBehavior_def tier_accountType_def Let_def)
  next
    case False
    with unverified show ?thesis
      by (simp add: analyzeBehavior_def tier_accountType_def Let_def ratio_gt_10)
  qed
qed

text \<open>Claim C3 as it is worded fails: an unverified account with 500 followers that
  follows 10 accounts is below every tier, and is classified \<^verbatim>\<open>Growing Influencer\<close>, not
  as a personal account.\<close>

theorem accountType_not_tiers_only:
  "accountType (analyzeBehavior sample_env growing_profile no_analysis) = ''Growing Influencer''
   \<and> tier_accountType (verified growing_profile) (count_or (followers growing_profile) 0)
       = ''Personal Account''
   \<and> accountType (analyzeBehavior sample_env growing_profile no_analysis)
       \<noteq> tier_accountType (verified growing_profile) (count_or (followers growing_profile) 0)"
  by (simp add: analyzeBehavior_def growing_profile_def tier_accountType_def count_or_def
      ratio_of_def Let_def)

section \<open>Properties of the engagement analysis\<close>

lemma foldl_sum: "foldl (\<lambda>sum t. sum + f t) a ts = a + sum_list (map f ts)"
  by (induction ts arbitrary: a) (simp_all add: add.assoc)

lemma total_engagement_sum:
  "sum_list (map likes ts) + sum_list (map retweets ts) + sum_list (map replies ts)
     = sum_list (map (\<lambda>t. likes t + retweets t + replies t) ts)"
  by (induction ts) simp_all

lemma ranked_by_score:
  "mset (sort_key (\<lambda>t. - int (weighted_score t)) ts) = mset ts
   \<and> sorted_wrt (\<lambda>a b. weighted_score a \<ge> weighted_score b)
        (sort_key (\<lambda>t. - int (weighted_score t)) ts)"
proof -
  have "sorted (map (\<lambda>t. - int (weighted_score t)) (sort_key (\<lambda>t. - int (weighted_score t)) ts))"
    by (rule sorted_sort_key)
  then have "sorted_wrt (\<lambda>a b. weighted_score a \<ge> weighted_score b)
        (sort_key (\<lambda>t. - int (weighted_score t)) ts)"
    by (simp add: sorted_map)
  then show ?thesis by simp
qed

text \<open>Claim C7, as amended. For every non-empty tweet list, the engagement averages
  (average likes, retweets, replies, views, and average total engagement) are the
  unweighted per-post means of the raw counts, each rounded to the nearest integer by
  \<^verbatim>\<open>Math.round\<close>; the weighted score likes + 2 \<times> retweets + 3 \<times> replies enters no
  average: it only orders the tweets, and the top performing tweets are the first three
  of the tweets ranked by descending weighted score.\<close>

theorem averages_unweighted_rounded:
  assumes "ts \<noteq> []"
  shows "avgLikes (analyzeEngagement env ts fo) = js_round (mean_of likes ts)
   \<and> avgRetweets (analyzeEngagement env ts fo) = js_round (mean_of retweets ts)
   \<and> avgReplies (analyzeEngagement env ts fo) = js_round (mean_of replies ts)
   \<and> avgViews (analyzeEngagement env ts fo) = js_round (mean_of views ts)
   \<and> avgEngagement (analyzeEngagement env ts fo)
       = js_round (mean_of (\<lambda>t. likes t + retweets t + replies t) ts)
   \<and> (\<exists>ranked. mset ranked = mset ts
        \<and> sorted_wrt (\<lambda>a b. weighted_score a \<ge> weighted_score b) ranked
        \<and> topTweets (analyzeEngagement env ts fo)
            = map (\<lambda>t. \<lparr> top_text = take 100 (tweet_text t) @ u16 ''...'', top_likes = likes t,
                          top_retweets = retweets t, top_replies = replies t \<rparr>)
                (take 3 ranked))"
proof -
  have avgs: "avgLikes (analyzeEngagement env ts fo) = js_round (mean_of likes ts)
   \<and> avgRetweets (analyzeEngagement env ts fo) = js_round (mean_of retweets ts)
   \<and> avgReplies (analyzeEngagement env ts fo) = js_round (mean_of replies ts)
   \<and> avgViews (analyzeEngagement env ts fo) = js_round (mean_of views ts)"
    using assms by (simp add: analyzeEngagement_def mean_of_def foldl_sum Let_def)
  have eng: "avgEngagement (analyzeEngagement env ts fo)
       = js_round (mean_of (\<lambda>t. likes t + retweets t + replies t) ts)"
    using assms
    by (simp add: analyzeEngagement_def mean_of_def foldl_sum Let_def
        total_engagement_sum [symmetric])
  have top: "topTweets (analyzeEngagement env ts fo)
            = map (\<lambda>t. \<lparr> top_text = take 100 (tweet_text t) @ u16 ''...'', top_likes = likes t,
                          top_retweets = retweets t, top_replies = replies t \<rparr>)
                (take 3 (sort_key (\<lambda>t. - int (weighted_score t)) ts))"
    using assms by (simp add: analyzeEngagement_def sortedTweets_def Let_def)
  from ranked_by_score [of ts] top
  have "\<exists>ranked. mset ranked = mset ts
        \<and> sorted_wrt (\<lambda>a b. weighted_score a \<ge> weighted_score b) ranked
        \<and> topTweets (analyzeEngagement env ts fo)
            = map (\<lambda>t. \<lparr> top_text = take 100 (tweet_text t) @ u16 ''...'', top_likes = likes t,
                          top_retweets = retweets t, top_replies = replies t \<rparr>)
                (take 3 ranked)"
    by blast
  with avgs eng show ?thesis by blast
qed

theorem averages_unweighted_rounded_witness:
  "[link_tweet, liked_tweet] \<noteq> []
   \<and> avgLikes (analyzeEngagement sample_env [link_tweet, liked_tweet] (Some 100)) = 2
   \<and> avgViews (analyzeEngagement sample_env [link_tweet, liked_tweet] (Some 100)) = 3
   \<and> avgEngagement (analyzeEngagement sample_env [link_tweet, liked_tweet] (Some 100)) = 2"
proof -
  have h: "[link_tweet, liked_tweet] \<noteq> []" by simp
  have m: "js_round (mean_of likes [link_tweet, liked_tweet]) = 2"
    "js_round (mean_of views [link_tweet, liked_tweet]) = 3"
    "js_round (mean_of (\<lambda>t. likes t + retweets t + replies t) [link_tweet, liked_tweet]) = 2"
    by (simp_all add: mean_of_def link_tweet_def liked_tweet_def js_round_def)
  from averages_unweighted_rounded [OF h, of sample_env "Some 100"] m show ?thesis by simp
qed

text \<open>Claim C7 as it is worded fails: for two tweets with 1 and 2 likes the mean is 3/2,
  and the average likes reported is 2.\<close>

theorem average_is_not_the_mean:
  "avgLikes (analyzeEngagement sample_env [link_tweet, liked_tweet] (Some 100)) = 2
   \<and> mean_of likes [link_tweet, liked_tweet] = 3 / 2"
  by (simp add: analyzeEngagement_def mean_of_def link_tweet_def liked_tweet_def
      js_round_def Let_def)

section \<open>The sub-analyses on an empty tweet list\<close>

lemma empty_engagement:
  "analyzeEngagement env [] fo
     = \<lparr> avgEngagement = 0, totalEngagement = 0, avgLikes = 0, avgRetweets = 0,
         avgReplies = 0, avgViews = 0, engagementRate = ''0%'', viralityScore = JNum 0,
         topTweets = [] \<rparr>"
  by (simp add: analyzeEngagement_def)

lemma dec_0: "dec 0 = ''0''"
  by (simp add: dec.simps)

lemma empty_behavior:
  "tweets data = [] \<Longrightarrow>
     activityPattern (analyzeBehavior env data ta) = ''Inactive''
     \<and> postingFrequency (analyzeBehavior env data ta) = ''0 tweets in recent timeline''
     \<and> peakTimes (analyzeBehavior env data ta) = peakHour ta
     \<and> consistencyScore (analyzeBehavior env data ta) = ''Insufficient data''"
  by (simp add: analyzeBehavior_def calculateConsistency_def dec_0 Let_def)

lemma empty_suspicious:
  "tweets data = [] \<Longrightarrow>
     flags (detectSuspiciousActivity env data)
       = map fst (ratio_rules (count_or (followers data) 0) (count_or (following data) 0)
                  @ age_rule env (joinDate data) (count_or (followers data) 0))"
  by (simp add: detectSuspiciousActivity_def spam_rules_def Let_def)

text \<open>Claim C1. For every empty post list, each sub-function of the analysis (content,
  engagement, behavior, suspicious activity) returns a structure in which every field
  documented for the non-empty case is present with a zero or default value, and no error
  is raised.

  The content analysis does not meet it. On an empty list it returns the objects
  \<^verbatim>\<open>types\<close>, \<^verbatim>\<open>hashtagStats\<close>, \<^verbatim>\<open>mentionStats\<close> and \<^verbatim>\<open>linkStats\<close> empty: the keys they
  hold for a non-empty list (\<^verbatim>\<open>original\<close>, \<^verbatim>\<open>topHashtags\<close>, \<^verbatim>\<open>topMentions\<close>,
  \<^verbatim>\<open>percentage\<close>, \<dots>) are absent.\<close>

theorem empty_content_omits_fields:
  "analyzeContent env []
     = \<lparr> topics = [],
         sentiment = [(''positive'', JNum 0), (''neutral'', JNum 0), (''negative'', JNum 0)],
         types = [], hashtagStats = [], mentionStats = [], linkStats = [] \<rparr>
   \<and> has_key (types (analyzeContent env [link_tweet])) ''original''
   \<and> \<not> has_key (types (analyzeContent env [])) ''original''
   \<and> has_key (hashtagStats (analyzeContent env [link_tweet])) ''topHashtags''
   \<and> \<not> has_key (hashtagStats (analyzeContent env [])) ''topHashtags''
   \<and> has_key (mentionStats (analyzeContent env [link_tweet])) ''topMentions''
   \<and> \<not> has_key (mentionStats (analyzeContent env [])) ''topMentions''
   \<and> has_key (linkStats (analyzeContent env [link_tweet])) ''percentage''
   \<and> \<not> has_key (linkStats (analyzeContent env [])) ''percentage''"
proof -
  have empty: "analyzeContent env []
     = \<lparr> topics = [],
         sentiment = [(''positive'', JNum 0), (''neutral'', JNum 0), (''negative'', JNum 0)],
         types = [], hashtagStats = [], mentionStats = [], linkStats = [] \<rparr>"
    by (simp add: analyzeContent_def)
  have absent: "\<not> has_key (types (analyzeContent env [])) ''original''"
    "\<not> has_key (hashtagStats (analyzeContent env [])) ''topHashtags''"
    "\<not> has_key (mentionStats (analyzeContent env [])) ''topMentions''"
    "\<not> has_key (linkStats (analyzeContent env [])) ''percentage''"
    unfolding empty by (simp_all add: has_key_def)
  have present: "has_key (types (analyzeContent env [link_tweet])) ''original''"
    "has_key (hashtagStats (analyzeContent env [link_tweet])) ''topHashtags''"
    "has_key (mentionStats (analyzeContent env [link_tweet])) ''topMentions''"
    "has_key (linkStats (analyzeContent env [link_tweet])) ''percentage''"
    by (simp_all add: analyzeContent_def has_key_def Let_def split: prod.split)
  from empty absent present show ?thesis by blast
qed

section \<open>The new-account rule\<close>

lemma plain_digit_nth: "k < 10 \<Longrightarrow> plain_digit (''0123456789'' ! k)"
  unfolding plain_digit_def by (rule nth_mem) simp

lemma digit_of_nth: "k < 10 \<Longrightarrow> digit_of (''0123456789'' ! k) = Some k"
proof -
  assume "k < 10"
  then have "k = 0 \<or> k = 1 \<or> k = 2 \<or> k = 3 \<or> k = 4 \<or> k = 5 \<or> k = 6 \<or> k = 7 \<or> k = 8 \<or> k = 9"
    by arith
  then show ?thesis by (auto simp: digit_of_def)
qed

lemma plain_digit_facts:
  "plain_digit c \<Longrightarrow> is_digit 10 c \<and> \<not> is_ws c \<and> c \<noteq> CHR ''-'' \<and> c \<noteq> CHR ''+''
     \<and> c \<noteq> CHR ''x'' \<and> c \<noteq> CHR ''X'' \<and> c \<noteq> CHR ''U''"
  by (auto simp: plain_digit_def is_digit_def digit_of_def is_ws_def)

lemma dec_plain: "dec n \<noteq> [] \<and> list_all plain_digit (dec n)"
proof (induction n rule: dec.induct)
  case (1 n)
  show ?case
  proof (cases "n < 10")
    case True
    then show ?thesis by (simp add: dec.simps [of n] plain_digit_nth)
  next
    case False
    with 1 have "list_all plain_digit (dec (n div 10))" by simp
    with False show ?thesis by (simp add: dec.simps [of n] plain_digit_nth)
  qed
qed

lemma digits_val_snoc:
  "digits_val r (ds @ [c]) = r * digits_val r ds + the (digit_of c)"
  by (simp add: digits_val_def)

lemma digits_val_dec: "digits_val 10 (dec n) = n"
proof (induction n rule: dec.induct)
  case (1 n)
  show ?case
  proof (cases "n < 10")
    case True
    then show ?thesis by (simp add: dec.simps [of n] digits_val_def digit_of_nth)
  next
    case False
    with 1 have "digits_val 10 (dec (n div 10)) = n div 10" by simp
    with False show ?thesis
      by (simp add: dec.simps [of n] digits_val_snoc digit_of_nth)
  qed
qed

lemma parseInt_dec:
  "parseInt (dec n @ CHR '' '' # rest) = Some (int n)"
proof -
  obtain c cs where d: "dec n = c # cs"
    using dec_plain [of n] by (cases "dec n") auto
  have all: "list_all plain_digit (c # cs)"
    using dec_plain [of n] d by simp
  then have c: "plain_digit c" by simp
  note cf = plain_digit_facts [OF c]
  define R where "R = cs @ CHR '' '' # rest"
  have tw: "takeWhile (is_digit 10) (c # R) = c # cs"
  proof -
    have "\<And>x. x \<in> set (c # cs) \<Longrightarrow> is_digit 10 x"
      using all plain_digit_facts by (auto simp: list_all_iff)
    then have "takeWhile (is_digit 10) ((c # cs) @ CHR '' '' # rest)
                 = (c # cs) @ takeWhile (is_digit 10) (CHR '' '' # rest)"
      by (rule takeWhile_append2)
    then show ?thesis by (simp add: is_digit_def digit_of_def R_def)
  qed
  have h1: "(take 2 (c # R) = ''0x'') = False" and h2: "(take 2 (c # R) = ''0X'') = False"
  proof -
    have "take 2 (c # R) \<noteq> ''0x'' \<and> take 2 (c # R) \<noteq> ''0X''"
    proof (cases cs)
      case Nil
      then show ?thesis by (simp add: R_def)
    next
      case (Cons c' cs')
      with all have "plain_digit c'" by simp
      from plain_digit_facts [OF this] Cons show ?thesis by (simp add: R_def)
    qed
    then show "(take 2 (c # R) = ''0x'') = False" and "(take 2 (c # R) = ''0X'') = False"
      by simp_all
  qed
  have s1: "dropWhile is_ws (c # R) = c # R"
    using cf by simp
  have n1: "(c = CHR ''-'') = False" and n2: "(c = CHR ''+'') = False"
    using cf by simp_all
  have "parseInt (c # R) = Some (int (digits_val 10 (c # cs)))"
    unfolding parseInt_def Let_def s1
    by (simp only: list.case n1 n2 h1 h2 simp_thms if_False tw list.distinct)
       simp
  then show ?thesis using digits_val_dec [of n] d by (simp add: R_def)
qed

lemma dec_not_Unknown: "dec n @ s \<noteq> ''Unknown''"
proof -
  obtain c cs where d: "dec n = c # cs"
    using dec_plain [of n] by (cases "dec n") auto
  then have "plain_digit c" using dec_plain [of n] by simp
  from plain_digit_facts [OF this] d show ?thesis by auto
qed

lemma parseInt_NaN: "parseInt ''NaN years'' = None"
  by code_simp

text \<open>The rule in general: it fires exactly when the join date is present and parseable,
  the follower count exceeds 10000, and the account is younger than 30 \<times> 365 days: the
  number read back from the age text is below 30 for every age printed in days or in
  months, and for every age of fewer than 30 years.\<close>

lemma age_rule_fires:
  "(age_rule env jd fo \<noteq> [])
     = (jd \<noteq> '''' \<and> jd \<noteq> ''Not specified'' \<and> fo > 10000
        \<and> (case parseDate env jd of
              None \<Rightarrow> False
            | Some joined \<Rightarrow>
                nat \<lceil>of_int \<bar>now env - joined\<bar> / (1000 * 60 * 60 * 24 :: rat)\<rceil> < 30 * 365))"
proof (cases "jd = '''' \<or> jd = ''Not specified''")
  case True
  then show ?thesis by (auto simp: age_rule_def calculateAccountAge_def)
next
  case known: False
  show ?thesis
  proof (cases "parseDate env jd")
    case None
    with known show ?thesis
      by (simp add: age_rule_def calculateAccountAge_def parseInt_NaN)
  next
    case (Some joined)
    define d where "d = nat \<lceil>of_int \<bar>now env - joined\<bar> / (1000 * 60 * 60 * 24 :: rat)\<rceil>"
    have age: "calculateAccountAge env jd
                 = (if d < 30 then dec d @ '' days''
                    else if d < 365 then dec (d div 30) @ '' months''
                    else dec (d div 365) @ '' years'')"
      using known Some by (simp add: calculateAccountAge_def d_def Let_def)
    define k where "k = (if d < 30 then d else if d < 365 then d div 30 else d div 365)"
    have p: "parseInt (calculateAccountAge env jd) = Some (int k)"
      unfolding age k_def using parseInt_dec by simp
    have u: "calculateAccountAge env jd \<noteq> ''Unknown''"
      unfolding age using dec_not_Unknown by simp
    have "(age_rule env jd fo \<noteq> []) = (fo > 10000 \<and> k < 30)"
      using u p by (simp add: age_rule_def Let_def)
    also have "\<dots> = (fo > 10000 \<and> d < 30 * 365)"
    proof -
      have m: "(d div 30 < 30) = (d < 30 * 30)" and y: "(d div 365 < 30) = (d < 30 * 365)"
        by (simp_all add: div_less_iff_less_mult)
      consider "d < 30" | "30 \<le> d \<and> d < 365" | "365 \<le> d" by arith
      then have "(k < 30) = (d < 30 * 365)"
      proof cases
        case 1
        then show ?thesis by (simp add: k_def)
      next
        case 2
        then show ?thesis by (simp add: k_def m)
      next
        case 3
        then show ?thesis by (simp add: k_def y)
      qed
      then show ?thesis by simp
    qed
    finally show ?thesis using known Some by (simp add: d_def)
  qed
qed

lemma age_two_years:
  "calculateAccountAge sample_env ''2023-11-03T00:00:00.000Z'' = ''2 years''"
  by code_simp

lemma parseInt_two_years: "parseInt ''2 years'' = Some 2"
  by code_simp

lemma age_rule_two_years:
  "age_rule sample_env ''2023-11-03T00:00:00.000Z'' 20000
     = [(''Rapid follower growth'',
         warning_sign @ '' Very new account with large follower base - potential bought followers'')]"
  by (simp add: age_rule_def age_two_years parseInt_two_years)

text \<open>In terms of the flags: the new-account flag is pushed exactly under the condition
  of \<open>age_rule_fires\<close>.\<close>

lemma new_account_rule_fires:
  "(''Rapid follower growth'' \<in> set (flags (detectSuspiciousActivity env data)))
     = (joinDate data \<noteq> '''' \<and> joinDate data \<noteq> ''Not specified''
        \<and> count_or (followers data) 0 > 10000
        \<and> (case parseDate env (joinDate data) of
              None \<Rightarrow> False
            | Some joined \<Rightarrow>
                nat \<lceil>of_int \<bar>now env - joined\<bar> / (1000 * 60 * 60 * 24 :: rat)\<rceil> < 30 * 365))"
  unfolding rapid_growth_flag age_rule_fires by (rule refl)

text \<open>So a caller that passes a join date gets the flag for an account of any age below
  30 years: the age text is read back whatever its unit. An account that joined 730 days
  before the clock's date, with 20000 followers, has the age \<^verbatim>\<open>2 years\<close> and is flagged.\<close>

lemma old_account_flagged_as_new:
  "calculateAccountAge sample_env (joinDate old_account) = ''2 years''
   \<and> followers old_account = Some 20000
   \<and> ''Rapid follower growth'' \<in> set (flags (detectSuspiciousActivity sample_env old_account))"
  by (simp add: detectSuspiciousActivity_def old_account_def count_or_def age_rule_two_years
      age_two_years Let_def)


section \<open>Properties of the number formatter\<close>




end
